theory Spec2Isabelle
  imports Complex_Main "HOL-Library.AList" "HOL-Library.Multiset" "HOL-Library.Option_ord"
begin

section \<open>Values, documents and the store\<close>

text \<open>
  The values that travel through the service are the values of parsed JSON, plus the
  \<open>datetime\<close> objects the handlers create. The type of floating point numbers is the
  parameter \<open>'f\<close>: nothing below depends on how a binary64 number is represented.
  A Python \<open>dict\<close> is an association list with distinct keys in insertion order;
  \<open>d[k] = v\<close> is \<open>AList.update k v d\<close> (an existing key keeps its place, a new key
  goes to the end) and \<open>d.get(k)\<close> is \<open>map_of d k\<close>.
\<close>

datatype 'f pyval =
    PyNone
  | PyBool bool
  | PyInt int
  | PyFloat 'f
  | PyStr string
  | PyDatetime int
  | PyList "'f pyval list"
  | PyDict "(string \<times> 'f pyval) list"

type_synonym 'f doc = "(string \<times> 'f pyval) list"

text \<open>
  The exceptions that reach the handlers from builtins. The builtin \<open>float\<close> is a
  parameter of every function that calls it: it either returns a float or raises.
\<close>

datatype exc = ValueError | TypeError | OverflowError | AttributeError

type_synonym 'f pyfloat = "'f pyval \<Rightarrow> exc + 'f"

text \<open>
  The failures of the handlers: the \<open>HTTPException\<close>s of \<open>app/routes\<close> and the error
  messages of \<open>coap_server.py\<close>, one constructor for each status and detail, the
  rejection of a request by the declared parameter constraints (422), and an exception
  that no handler catches (500).
\<close>

datatype error =
    DuplicateChannel
  | ChannelNotFound
  | InvalidApiKey
  | ApiKeyRequired
  | NoValidFields
  | InvalidField
  | FieldNotFound
  | NoData
  | InvalidUriPath
  | EmptyPayload
  | InvalidJson
  | InvalidEncoding
  | ValidationError
  | Unhandled exc

text \<open>
  A channel document. The key \<open>fields\<close> of the document is the selector
  \<open>field_names\<close> (the record package reserves the name \<open>fields\<close>).
\<close>

record channel =
  channel_name :: string
  api_key :: string
  field_names :: "string list"

text \<open>
  The two collections of \<open>app/database.py\<close>. A data document is the flat dictionary
  the handlers build: the keys \<open>tank_id\<close> and \<open>timestamp\<close> and one key for each field.
  Field names are opaque top-level keys; the identifier that the store adds to a
  document on insertion is not part of the model.
\<close>

record 'f store =
  channels :: "channel list"
  data :: "'f doc list"

definition find_one :: "'f store \<Rightarrow> string \<Rightarrow> channel option" where
  "find_one s n = find (\<lambda>c. channel_name c = n) (channels s)"

definition tank_match :: "string \<Rightarrow> 'f doc \<Rightarrow> bool" where
  "tank_match n d = (map_of d ''tank_id'' = Some (PyStr n))"

definition insert_one :: "'f doc \<Rightarrow> 'f store \<Rightarrow> 'f store" where
  "insert_one d s = s\<lparr>data := data s @ [d]\<rparr>"

definition update_many_set :: "string \<Rightarrow> string \<Rightarrow> 'f pyval \<Rightarrow> 'f store \<Rightarrow> 'f store" where
  "update_many_set n k v s =
     s\<lparr>data := map (\<lambda>d. if tank_match n d then AList.update k v d else d) (data s)\<rparr>"

fun update_first :: "('a \<Rightarrow> bool) \<Rightarrow> ('a \<Rightarrow> 'a) \<Rightarrow> 'a list \<Rightarrow> 'a list" where
  "update_first p f [] = []"
| "update_first p f (x # xs) = (if p x then f x # xs else x # update_first p f xs)"

fun delete_first :: "('a \<Rightarrow> bool) \<Rightarrow> 'a list \<Rightarrow> 'a list" where
  "delete_first p [] = []"
| "delete_first p (x # xs) = (if p x then xs else x # delete_first p xs)"

definition update_one_fields :: "string \<Rightarrow> (string list \<Rightarrow> string list) \<Rightarrow> 'f store \<Rightarrow> 'f store" where
  "update_one_fields n f s =
     s\<lparr>channels := update_first (\<lambda>c. channel_name c = n) (\<lambda>c. c\<lparr>field_names := f (field_names c)\<rparr>) (channels s)\<rparr>"

definition delete_one :: "string \<Rightarrow> 'f store \<Rightarrow> 'f store" where
  "delete_one n s = s\<lparr>channels := delete_first (\<lambda>c. channel_name c = n) (channels s)\<rparr>"

definition delete_many :: "string \<Rightarrow> 'f store \<Rightarrow> 'f store" where
  "delete_many n s = s\<lparr>data := filter (\<lambda>d. \<not> tank_match n d) (data s)\<rparr>"

section \<open>Ingestion\<close>

text \<open>
  The loop of \<open>write_data\<close>, of \<open>update_channel_data_by_query_params\<close> and of
  \<open>ChannelDataResource.render_put\<close>: for each pair of the bag whose field is in the
  channel's field set, store \<open>float(value)\<close>, or the value itself when \<open>float\<close> raises
  an exception of the \<open>except\<close> clause; an exception outside the clause leaves the loop.
  The three loops differ in the clause only, which is the argument \<open>caught\<close>. The state
  of the loop is the document and the flag \<open>valid_field_found\<close>.
\<close>

fun ingest_loop ::
  "'f pyfloat \<Rightarrow> exc list \<Rightarrow> string list \<Rightarrow> (string \<times> 'f pyval) list \<Rightarrow> 'f doc \<times> bool
     \<Rightarrow> exc + ('f doc \<times> bool)" where
  "ingest_loop flt caught fs [] acc = Inr acc"
| "ingest_loop flt caught fs ((field, v) # rest) (d, found) =
     (if field \<in> set fs then
        (case flt v of
           Inr x \<Rightarrow> ingest_loop flt caught fs rest (AList.update field (PyFloat x) d, True)
         | Inl e \<Rightarrow>
             if e \<in> set caught
             then ingest_loop flt caught fs rest (AList.update field v d, True)
             else Inl e)
      else ingest_loop flt caught fs rest (d, found))"

definition new_doc :: "string \<Rightarrow> int \<Rightarrow> 'f doc" where
  "new_doc n now = [(''tank_id'', PyStr n), (''timestamp'', PyDatetime now)]"

text \<open>
  \<open>d[k]\<close> of a dictionary that has the key. The handlers read only keys they have
  written, so the default is never returned.
\<close>

definition getitem :: "'f doc \<Rightarrow> string \<Rightarrow> 'f pyval" where
  "getitem d k = (case map_of d k of Some v \<Rightarrow> v | None \<Rightarrow> PyNone)"

text \<open>\<open>POST /{channel_name}/data\<close>: the bag is the JSON object of the body.\<close>

definition write_data ::
  "'f pyfloat \<Rightarrow> int \<Rightarrow> 'f store \<Rightarrow> string \<Rightarrow> string \<Rightarrow> (string \<times> 'f pyval) list
     \<Rightarrow> (error + 'f pyval) \<times> 'f store" where
  "write_data flt now s name key bag =
     (case find_one s name of
        None \<Rightarrow> (Inl ChannelNotFound, s)
      | Some ch \<Rightarrow>
          if key \<noteq> api_key ch then (Inl InvalidApiKey, s)
          else
            (case ingest_loop flt [ValueError, TypeError] (field_names ch) bag (new_doc name now, False) of
               Inl e \<Rightarrow> (Inl (Unhandled e), s)
             | Inr (d, found) \<Rightarrow>
                 if \<not> found then (Inl NoValidFields, s)
                 else (Inr (PyDict [(''message'', PyStr ''Data written successfully (JSON Body)''),
                                    (''timestamp'', getitem d ''timestamp'')]),
                       insert_one d s)))"

text \<open>
  \<open>GET /{channel_name}/update\<close>: the query parameters arrive as a list of pairs;
  \<open>request.query_params\<close> keeps the last value of a repeated key. The loop skips
  \<open>api_key\<close> (the bag is \<open>query_bag\<close>, every value a string) and catches
  \<open>ValueError\<close> only.
\<close>

definition query_dict :: "(string \<times> string) list \<Rightarrow> (string \<times> string) list" where
  "query_dict ps = fold (\<lambda>(k, v) d. AList.update k v d) ps []"

definition query_bag :: "(string \<times> string) list \<Rightarrow> (string \<times> 'f pyval) list" where
  "query_bag qd = map (\<lambda>(k, v). (k, PyStr v)) (filter (\<lambda>(k, v). k \<noteq> ''api_key'') qd)"

definition update_channel_data_by_query_params ::
  "'f pyfloat \<Rightarrow> int \<Rightarrow> 'f store \<Rightarrow> string \<Rightarrow> (string \<times> string) list
     \<Rightarrow> (error + 'f pyval) \<times> 'f store" where
  "update_channel_data_by_query_params flt now s name params =
     (let qd = query_dict params in
      case map_of qd ''api_key'' of
        None \<Rightarrow> (Inl ApiKeyRequired, s)
      | Some key \<Rightarrow>
          if key = [] then (Inl ApiKeyRequired, s)
          else
            (case find_one s name of
               None \<Rightarrow> (Inl ChannelNotFound, s)
             | Some ch \<Rightarrow>
                 if key \<noteq> api_key ch then (Inl InvalidApiKey, s)
                 else
                   (case ingest_loop flt [ValueError] (field_names ch) (query_bag qd)
                           (new_doc name now, False) of
                      Inl e \<Rightarrow> (Inl (Unhandled e), s)
                    | Inr (d, found) \<Rightarrow>
                        if \<not> found then (Inl NoValidFields, s)
                        else (Inr (PyDict [(''message'', PyStr ''Data written successfully via query parameters''),
                                           (''timestamp'', getitem d ''timestamp'')]),
                              insert_one d s))))"

text \<open>
  \<open>ChannelDataResource.render_put\<close> of \<open>coap_server.py\<close>. A request carries the
  segments of its path, the tokens of its query and a payload. The payload is given by
  what \<open>request.payload.decode('utf-8')\<close> and \<open>json.loads\<close> make of it: nothing
  (no bytes), bytes that are not UTF-8, text that is not JSON, or a JSON value.
\<close>

datatype 'f payload = NoPayload | BadEncoding | BadJson | Json "'f pyval"

record 'f coap_request =
  uri_path :: "string list"
  uri_query :: "string list"
  payload :: "'f payload"

definition coap_query_params :: "string list \<Rightarrow> (string \<times> string) list" where
  "coap_query_params q =
     fold (\<lambda>param d.
             if CHR ''='' \<in> set param
             then AList.update (takeWhile (\<lambda>c. c \<noteq> CHR ''='') param)
                               (tl (dropWhile (\<lambda>c. c \<noteq> CHR ''='') param)) d
             else AList.update param [] d) q []"

text \<open>
  The key of a CoAP request: \<open>Inl\<close> when the path is too short (fewer than \<open>n\<close>
  segments), the query has no non-empty \<open>api_key\<close>, the channel is unknown or the key
  is not the channel's; the channel otherwise. The three resources begin with it.
\<close>

definition coap_authorize :: "nat \<Rightarrow> 'f store \<Rightarrow> 'f coap_request \<Rightarrow> error + channel" where
  "coap_authorize n s req =
     (if length (uri_path req) < n then Inl InvalidUriPath
      else
        (case map_of (coap_query_params (uri_query req)) ''api_key'' of
           None \<Rightarrow> Inl ApiKeyRequired
         | Some key \<Rightarrow>
             if key = [] then Inl ApiKeyRequired
             else
               (case find_one s (uri_path req ! 1) of
                  None \<Rightarrow> Inl ChannelNotFound
                | Some ch \<Rightarrow> if key \<noteq> api_key ch then Inl InvalidApiKey else Inr ch)))"

definition render_put ::
  "'f pyfloat \<Rightarrow> (int \<Rightarrow> string) \<Rightarrow> int \<Rightarrow> 'f store \<Rightarrow> 'f coap_request
     \<Rightarrow> (error + 'f pyval) \<times> 'f store" where
  "render_put flt isoformat now s req =
     (case coap_authorize 2 s req of
        Inl e \<Rightarrow> (Inl e, s)
      | Inr ch \<Rightarrow>
          (case payload req of
             NoPayload \<Rightarrow> (Inl EmptyPayload, s)
           | BadEncoding \<Rightarrow> (Inl InvalidEncoding, s)
           | BadJson \<Rightarrow> (Inl InvalidJson, s)
           | Json (PyDict bag) \<Rightarrow>
               (case ingest_loop flt [ValueError, TypeError] (field_names ch) bag
                       (new_doc (uri_path req ! 1) now, False) of
                  Inl e \<Rightarrow> (Inl (Unhandled e), s)
                | Inr (d, found) \<Rightarrow>
                    if \<not> found then (Inl NoValidFields, s)
                    else
                      (case getitem d ''timestamp'' of
                         PyDatetime t \<Rightarrow>
                           (Inr (PyDict [(''message'', PyStr ''Data written successfully via CoAP''),
                                         (''timestamp'', PyStr (isoformat t))]),
                            insert_one d s)
                       | _ \<Rightarrow> (Inl (Unhandled AttributeError), insert_one d s)))
           | Json _ \<Rightarrow> (Inl (Unhandled AttributeError), s)))"

text \<open>
  \<open>save_mqtt_data\<close> (the MQTT subscriber, in the \<open>main.py\<close> part of
  \<open>coap_simulation_client.py\<close>). It returns nothing, so the result is the store. The
  argument \<open>uuid\<close> is the value of \<open>str(uuid.uuid4())\<close>. The store is taken to be
  connected (\<open>db.channels\<close> and \<open>db.data\<close> are set).
\<close>

definition save_mqtt_data ::
  "string \<Rightarrow> int \<Rightarrow> 'f store \<Rightarrow> string \<Rightarrow> (string \<times> 'f pyval) list \<Rightarrow> 'f store" where
  "save_mqtt_data uuid now s name bag =
     (case find_one s name of
        None \<Rightarrow> s
      | Some ch \<Rightarrow>
          (let cleaned_data =
                 fold (\<lambda>(k, v) d. if k \<in> set (field_names ch) then AList.update k v d else d) bag [];
               data_entry =
                 fold (\<lambda>(k, v) d. AList.update k v d) cleaned_data
                   [(''_id'', PyStr uuid), (''tank_id'', PyStr name), (''timestamp'', PyDatetime now)]
           in insert_one data_entry s))"

section \<open>The channel registry\<close>

text \<open>
  \<open>create_channel\<close>. The argument \<open>key\<close> is the value of \<open>generate_api_key()\<close>.
  \<open>initial_values\<close> is optional; the test \<open>if channel.initial_values\<close> is false for
  \<open>None\<close> and for the empty dictionary.
\<close>

definition channel_out :: "string \<Rightarrow> string \<Rightarrow> string list \<Rightarrow> 'f pyval" where
  "channel_out n key fs =
     PyDict [(''channel_name'', PyStr n), (''api_key'', PyStr key), (''fields'', PyList (map PyStr fs))]"

definition seed_doc :: "string \<Rightarrow> int \<Rightarrow> string list \<Rightarrow> (string \<times> 'f pyval) list option \<Rightarrow> 'f doc" where
  "seed_doc n now fs initial_values =
     (case initial_values of
        Some (iv # ivs) \<Rightarrow>
          fold (\<lambda>(field, v) d. if field \<in> set fs then AList.update field v d else d)
               (iv # ivs) (new_doc n now)
      | _ \<Rightarrow> fold (\<lambda>field d. AList.update field (PyStr ''N/A'') d) fs (new_doc n now))"

definition create_channel ::
  "string \<Rightarrow> int \<Rightarrow> 'f store \<Rightarrow> string \<Rightarrow> string list \<Rightarrow> (string \<times> 'f pyval) list option
     \<Rightarrow> (error + 'f pyval) \<times> 'f store" where
  "create_channel key now s n fs initial_values =
     (case find_one s n of
        Some existing \<Rightarrow> (Inl DuplicateChannel, s)
      | None \<Rightarrow>
          (Inr (channel_out n key fs),
           insert_one (seed_doc n now fs initial_values)
             (s\<lparr>channels := channels s @ [\<lparr>channel_name = n, api_key = key, field_names = fs\<rparr>]\<rparr>)))"

text \<open>
  The first lines of every handler with an \<open>api_key\<close> parameter: look the channel up
  (404 when absent) and compare the key (401 on mismatch).
\<close>

definition authorize :: "'f store \<Rightarrow> string \<Rightarrow> string \<Rightarrow> error + channel" where
  "authorize s n key =
     (case find_one s n of
        None \<Rightarrow> Inl ChannelNotFound
      | Some ch \<Rightarrow> if key \<noteq> api_key ch then Inl InvalidApiKey else Inr ch)"

definition quoted :: "string \<Rightarrow> string" where
  "quoted x = CHR 0x27 # x @ [CHR 0x27]"

definition get_channel :: "'f store \<Rightarrow> string \<Rightarrow> string \<Rightarrow> error + 'f pyval" where
  "get_channel s n key =
     (case authorize s n key of
        Inl e \<Rightarrow> Inl e
      | Inr ch \<Rightarrow> Inr (channel_out (channel_name ch) (api_key ch) (field_names ch)))"

definition delete_channel :: "'f store \<Rightarrow> string \<Rightarrow> string \<Rightarrow> (error + 'f pyval) \<times> 'f store" where
  "delete_channel s n key =
     (case authorize s n key of
        Inl e \<Rightarrow> (Inl e, s)
      | Inr ch \<Rightarrow>
          (Inr (PyDict [(''message'', PyStr (''Channel '' @ quoted n @ '' and all related data deleted''))]),
           delete_many n (delete_one n s)))"

text \<open>\<open>delete_field\<close>: \<open>$pull\<close> takes every occurrence of the name out of the array.\<close>

definition delete_field ::
  "'f store \<Rightarrow> string \<Rightarrow> string \<Rightarrow> string \<Rightarrow> (error + 'f pyval) \<times> 'f store" where
  "delete_field s n field_name key =
     (case authorize s n key of
        Inl e \<Rightarrow> (Inl e, s)
      | Inr ch \<Rightarrow>
          if field_name \<notin> set (field_names ch) then (Inl FieldNotFound, s)
          else
            (Inr (PyDict [(''message'', PyStr (''Field '' @ quoted field_name @ '' deleted from channel '' @ quoted n
                                        @ '' (set to '' @ quoted ''N/A'' @ '' in all data)''))]),
             update_many_set n field_name (PyStr ''N/A'')
               (update_one_fields n (removeAll field_name) s)))"

text \<open>
  \<open>update_channel_fields\<close>. A Python set of strings is a list without repetition;
  the order in which \<open>list(current_fields)\<close> enumerates it is the parameter
  \<open>set_order\<close>, of which the theorems assume only that it permutes its argument.
  \<open>add_fields\<close> and \<open>remove_fields\<close> are lists (\<open>None\<close> is treated as the empty list by
  the tests \<open>if update.add_fields\<close> and \<open>if update.remove_fields\<close>).
\<close>

definition current_fields :: "string list \<Rightarrow> string list \<Rightarrow> string list \<Rightarrow> string list" where
  "current_fields fs add_fields remove_fields =
     filter (\<lambda>f. f \<notin> set remove_fields) (remdups (fs @ add_fields))"

definition update_channel_fields ::
  "(string list \<Rightarrow> string list) \<Rightarrow> 'f store \<Rightarrow> string \<Rightarrow> string list \<Rightarrow> string list \<Rightarrow> string
     \<Rightarrow> (error + 'f pyval) \<times> 'f store" where
  "update_channel_fields set_order s n add_fields remove_fields key =
     (case authorize s n key of
        Inl e \<Rightarrow> (Inl e, s)
      | Inr ch \<Rightarrow>
          (let fs = set_order (current_fields (field_names ch) add_fields remove_fields);
               s1 = fold (\<lambda>field st. update_many_set n field (PyStr ''N/A'') st) remove_fields s
           in (Inr (PyDict [(''message'', PyStr ''Channel fields updated''),
                            (''fields'', PyList (map PyStr fs))]),
               update_one_fields n (\<lambda>old. fs) s1)))"

section \<open>The query service\<close>

text \<open>
  What the handlers ask of the store. A filter on \<open>timestamp\<close> with \<open>$gte\<close> or
  \<open>$lte\<close> and a date matches documents whose \<open>timestamp\<close> is a date in the range
  (a value of another type does not compare with a date). \<open>sort("timestamp", 1)\<close>
  orders by date, documents whose \<open>timestamp\<close> is not a date first; documents with
  equal keys stay in the order of the collection, and \<open>sort("timestamp", -1)\<close> is the
  reverse. An inclusion projection keeps the keys marked \<open>1\<close>.
\<close>

definition ts_key :: "'f doc \<Rightarrow> int option" where
  "ts_key d = (case map_of d ''timestamp'' of Some (PyDatetime t) \<Rightarrow> Some t | _ \<Rightarrow> None)"

definition gte_match :: "int \<Rightarrow> 'f doc \<Rightarrow> bool" where
  "gte_match t0 d = (case ts_key d of Some t \<Rightarrow> t0 \<le> t | None \<Rightarrow> False)"

definition lte_match :: "int \<Rightarrow> 'f doc \<Rightarrow> bool" where
  "lte_match t1 d = (case ts_key d of Some t \<Rightarrow> t \<le> t1 | None \<Rightarrow> False)"

definition sort_asc :: "'f doc list \<Rightarrow> 'f doc list" where
  "sort_asc ds = sort_key ts_key ds"

definition sort_desc :: "'f doc list \<Rightarrow> 'f doc list" where
  "sort_desc ds = rev (sort_key ts_key ds)"

definition project :: "(string \<times> nat) list \<Rightarrow> 'f doc \<Rightarrow> 'f doc" where
  "project projection d = filter (\<lambda>(k, v). map_of projection k = Some 1) d"

text \<open>
  The conversion of the timestamp of an entry for the response:
  \<open>entry["timestamp"] = entry["timestamp"].isoformat()\<close> when it is a \<open>datetime\<close>.
\<close>

definition iso_entry :: "(int \<Rightarrow> string) \<Rightarrow> 'f doc \<Rightarrow> 'f doc" where
  "iso_entry isoformat d =
     (case map_of d ''timestamp'' of
        Some (PyDatetime t) \<Rightarrow> AList.update ''timestamp'' (PyStr (isoformat t)) d
      | _ \<Rightarrow> d)"

text \<open>
  \<open>get_historical_data\<close>. \<open>limit\<close> is declared \<open>Query(100, ge=1, le=1000)\<close>: a request
  without it gets 100, and one outside the bounds is rejected before the handler runs.
  The tests \<open>if field_name\<close>, \<open>if start_time\<close> and \<open>if end_time\<close> are false for
  \<open>None\<close>; \<open>if field_name\<close> is false for the empty string too.
\<close>

definition history_query :: "string \<Rightarrow> int option \<Rightarrow> int option \<Rightarrow> 'f doc \<Rightarrow> bool" where
  "history_query n start_time end_time d =
     (tank_match n d
      \<and> (case start_time of None \<Rightarrow> True | Some t0 \<Rightarrow> gte_match t0 d)
      \<and> (case end_time of None \<Rightarrow> True | Some t1 \<Rightarrow> lte_match t1 d))"

definition history_projection :: "string list \<Rightarrow> (string \<times> nat) list" where
  "history_projection fs =
     fold (\<lambda>field p. AList.update field 1 p) fs [(''_id'', 0), (''timestamp'', 1)]"

definition get_historical_data ::
  "(int \<Rightarrow> string) \<Rightarrow> 'f store \<Rightarrow> string \<Rightarrow> string \<Rightarrow> string option \<Rightarrow> int option \<Rightarrow> int option
     \<Rightarrow> int option \<Rightarrow> error + 'f doc list" where
  "get_historical_data isoformat s n key field_name start_time end_time limit =
     (let lim = (case limit of None \<Rightarrow> 100 | Some l \<Rightarrow> l) in
      if lim < 1 \<or> 1000 < lim then Inl ValidationError
      else
        (case authorize s n key of
           Inl e \<Rightarrow> Inl e
         | Inr ch \<Rightarrow>
             (let requested =
                    (case field_name of
                       None \<Rightarrow> Inr (field_names ch)
                     | Some f \<Rightarrow>
                         if f = [] then Inr (field_names ch)
                         else if f \<notin> set (field_names ch) then Inl InvalidField
                         else Inr [f])
              in case requested of
                   Inl e \<Rightarrow> Inl e
                 | Inr fs \<Rightarrow>
                     Inr (map (iso_entry isoformat)
                            (map (project (history_projection fs))
                               (take (nat lim)
                                  (sort_asc (filter (history_query n start_time end_time) (data s)))))))))"

text \<open>
  \<open>get_latest_data\<close> and \<open>get_field_value\<close> of \<open>app/routes/data.py\<close>. The argument
  \<open>str\<close> is the builtin of that name, applied to the \<open>_id\<close> of the entry when it has
  one.
\<close>

definition latest_docs :: "'f store \<Rightarrow> string \<Rightarrow> 'f doc list" where
  "latest_docs s n = take 1 (sort_desc (filter (tank_match n) (data s)))"

definition get_latest_data ::
  "('f pyval \<Rightarrow> string) \<Rightarrow> (int \<Rightarrow> string) \<Rightarrow> 'f store \<Rightarrow> string \<Rightarrow> string \<Rightarrow> error + 'f doc" where
  "get_latest_data str isoformat s n key =
     (case authorize s n key of
        Inl e \<Rightarrow> Inl e
      | Inr ch \<Rightarrow>
          (case latest_docs s n of
             [] \<Rightarrow> Inl NoData
           | latest_entry # _ \<Rightarrow>
               Inr (iso_entry isoformat
                      (case map_of latest_entry ''_id'' of
                         Some v \<Rightarrow> AList.update ''_id'' (PyStr (str v)) latest_entry
                       | None \<Rightarrow> latest_entry))))"

definition field_value_out :: "(int \<Rightarrow> string) \<Rightarrow> string \<Rightarrow> string \<Rightarrow> 'f doc \<Rightarrow> 'f pyval" where
  "field_value_out isoformat n field_name d =
     PyDict [(''channel_name'', PyStr n), (''field'', PyStr field_name),
             (''value'', getitem d field_name),
             (''timestamp'', getitem (iso_entry isoformat d) ''timestamp'')]"

definition get_field_value ::
  "(int \<Rightarrow> string) \<Rightarrow> 'f store \<Rightarrow> string \<Rightarrow> string \<Rightarrow> string \<Rightarrow> error + 'f pyval" where
  "get_field_value isoformat s n field_name key =
     (case authorize s n key of
        Inl e \<Rightarrow> Inl e
      | Inr ch \<Rightarrow>
          if field_name \<notin> set (field_names ch) then Inl InvalidField
          else
            (case latest_docs s n of
               [] \<Rightarrow> Inl NoData
             | d # _ \<Rightarrow>
                 if map_of d field_name = None then Inl NoData
                 else Inr (field_value_out isoformat n field_name d)))"

text \<open>
  \<open>ChannelLatestDataResource.render_get\<close> and \<open>ChannelLatestFieldResource.render_get\<close>
  of \<open>coap_server.py\<close>; the first deletes the \<open>_id\<close> of the entry.
\<close>

definition latest_render_get ::
  "(int \<Rightarrow> string) \<Rightarrow> 'f store \<Rightarrow> 'f coap_request \<Rightarrow> error + 'f doc" where
  "latest_render_get isoformat s req =
     (case coap_authorize 2 s req of
        Inl e \<Rightarrow> Inl e
      | Inr ch \<Rightarrow>
          (case latest_docs s (uri_path req ! 1) of
             [] \<Rightarrow> Inl NoData
           | latest_entry # _ \<Rightarrow>
               Inr (iso_entry isoformat (AList.delete ''_id'' latest_entry))))"

definition latest_field_render_get ::
  "(int \<Rightarrow> string) \<Rightarrow> 'f store \<Rightarrow> 'f coap_request \<Rightarrow> error + 'f pyval" where
  "latest_field_render_get isoformat s req =
     (case coap_authorize 3 s req of
        Inl e \<Rightarrow> Inl e
      | Inr ch \<Rightarrow>
          if uri_path req ! 2 \<notin> set (field_names ch) then Inl InvalidField
          else
            (case latest_docs s (uri_path req ! 1) of
               [] \<Rightarrow> Inl NoData
             | d # _ \<Rightarrow>
                 if map_of d (uri_path req ! 2) = None then Inl NoData
                 else Inr (field_value_out isoformat (uri_path req ! 1) (uri_path req ! 2) d)))"

section \<open>Coercion as the specification words it, and sample data\<close>

text \<open>
  The specification's coercion rule: the raw value parsed as a float, or the raw value
  unchanged when the parse fails. \<open>raises_only caught flt v\<close> says that \<open>float(v)\<close>
  returns or raises one of the exceptions of \<open>caught\<close>.
\<close>

definition spec_coerce :: "'f pyfloat \<Rightarrow> 'f pyval \<Rightarrow> 'f pyval" where
  "spec_coerce flt raw = (case flt raw of Inr x \<Rightarrow> PyFloat x | Inl e \<Rightarrow> raw)"

definition raises_only :: "exc list \<Rightarrow> 'f pyfloat \<Rightarrow> 'f pyval \<Rightarrow> bool" where
  "raises_only caught flt v = (case flt v of Inr x \<Rightarrow> True | Inl e \<Rightarrow> e \<in> set caught)"

text \<open>
  An instance of the parameter \<open>flt\<close> for running the model on concrete requests: the
  builtin on numbers, booleans and plain decimal literals (a sign, digits, a fraction),
  with rational values and no rounding. An integer of magnitude \<open>2 ^ 1024\<close> or more
  is beyond every float (\<open>OverflowError: int too large to convert to float\<close>); a
  string that is not a number is a \<open>ValueError\<close>; \<open>None\<close>, a list and a dictionary
  are a \<open>TypeError\<close>. The theorems that have a parameter \<open>flt\<close> hold for every one.
\<close>

definition digit_of :: "char \<Rightarrow> nat option" where
  "digit_of c = (let n = (of_char c :: nat) in if 48 \<le> n \<and> n \<le> 57 then Some (n - 48) else None)"

fun digits_val :: "string \<Rightarrow> nat \<Rightarrow> nat option" where
  "digits_val [] acc = Some acc"
| "digits_val (c # cs) acc =
     (case digit_of c of None \<Rightarrow> None | Some d \<Rightarrow> digits_val cs (10 * acc + d))"

definition parse_decimal :: "string \<Rightarrow> rat option" where
  "parse_decimal s =
     (let neg = (case s of c # r \<Rightarrow> c = CHR ''-'' | [] \<Rightarrow> False);
          body = (case s of c # r \<Rightarrow> if c = CHR ''-'' \<or> c = CHR ''+'' then r else s | [] \<Rightarrow> s);
          ip = takeWhile (\<lambda>c. c \<noteq> CHR ''.'') body;
          fp = drop 1 (dropWhile (\<lambda>c. c \<noteq> CHR ''.'') body)
      in if ip = [] \<and> fp = [] then None
         else (case (digits_val ip 0, digits_val fp 0) of
                 (Some a, Some b) \<Rightarrow>
                   Some ((if neg then - 1 else 1) * (of_nat a + of_nat b / 10 ^ length fp))
               | _ \<Rightarrow> None))"

definition huge_integer :: int where
  "huge_integer = 2 ^ 1024"

definition float_decimal :: "rat pyfloat" where
  "float_decimal v =
     (case v of
        PyFloat x \<Rightarrow> Inr x
      | PyInt n \<Rightarrow> if 2 ^ 1024 \<le> \<bar>n\<bar> then Inl OverflowError else Inr (of_int n)
      | PyBool b \<Rightarrow> Inr (if b then 1 else 0)
      | PyStr s \<Rightarrow> (case parse_decimal s of Some x \<Rightarrow> Inr x | None \<Rightarrow> Inl ValueError)
      | _ \<Rightarrow> Inl TypeError)"

text \<open>
  A store with the channel of \<open>coap_simulation_client.py\<close> (\<open>tank3\<close> and its key) and
  the seed record of a registration without initial values, and a CoAP PUT to it.
\<close>

definition tank3_channel :: channel where
  "tank3_channel = \<lparr>channel_name = ''tank3'', api_key = ''XWHX1ZJA6Q8F'',
                     field_names = [''level'', ''temperature'', ''status'']\<rparr>"

definition tank3 :: "rat store" where
  "tank3 =
     \<lparr>channels = [tank3_channel],
      data = [[(''tank_id'', PyStr ''tank3''), (''timestamp'', PyDatetime 100),
               (''level'', PyStr ''N/A''), (''temperature'', PyStr ''N/A''),
               (''status'', PyStr ''N/A'')]]\<rparr>"

definition put_request :: "(string \<times> rat pyval) list \<Rightarrow> rat coap_request" where
  "put_request bag = \<lparr>uri_path = [''channels'', ''tank3'', ''data''],
                       uri_query = [''api_key=XWHX1ZJA6Q8F''], payload = Json (PyDict bag)\<rparr>"

text \<open>
  A store whose only channel declares a field named \<open>timestamp\<close>, and the empty store.
\<close>

definition clock_store :: "rat store" where
  "clock_store =
     \<lparr>channels = [\<lparr>channel_name = ''clock'', api_key = ''KEY'', field_names = [''timestamp'']\<rparr>],
      data = []\<rparr>"

definition empty_store :: "rat store" where
  "empty_store = \<lparr>channels = [], data = []\<rparr>"

text \<open>The invariant of the data model: no channel lists a field twice.\<close>

definition no_duplicate_fields :: "'f store \<Rightarrow> bool" where
  "no_duplicate_fields s = list_all (\<lambda>c. distinct (field_names c)) (channels s)"

text \<open>A CoAP GET of the latest value of a field of \<open>tank3\<close> with the key given.\<close>

definition get_request :: "string \<Rightarrow> rat coap_request" where
  "get_request key = \<lparr>uri_path = [''channels'', ''tank3'', ''latest'', ''level''],
                       uri_query = [''api_key='' @ key], payload = NoPayload\<rparr>"

text \<open>
  The channel \<open>tank3\<close> with three readings stored out of order, and a reading of
  another channel.
\<close>

definition reading :: "string \<Rightarrow> int \<Rightarrow> rat \<Rightarrow> rat doc" where
  "reading n t x = [(''tank_id'', PyStr n), (''timestamp'', PyDatetime t), (''level'', PyFloat x),
                    (''status'', PyStr ''online'')]"

definition tank3_history :: "rat store" where
  "tank3_history =
     \<lparr>channels = [tank3_channel],
      data = [reading ''tank3'' 300 3, reading ''tank9'' 150 9, reading ''tank3'' 100 1,
              reading ''tank3'' 200 2]\<rparr>"

section \<open>Properties of the ingestion loop\<close>


lemma ingest_loop_unwritten:
  "ingest_loop flt c fs bag (d, b) = Inr (d', b') \<Longrightarrow> k \<notin> fst ` set bag \<inter> set fs
     \<Longrightarrow> map_of d' k = map_of d k"
  by (induction flt c fs bag "(d, b)" arbitrary: d b rule: ingest_loop.induct)
     (auto simp: update_conv' split: if_splits sum.splits)

lemma ingest_loop_value:
  "ingest_loop flt c fs bag (d, b) = Inr (d', b') \<Longrightarrow> distinct (map fst bag)
     \<Longrightarrow> (k, v) \<in> set bag \<Longrightarrow> k \<in> set fs \<Longrightarrow> map_of d' k = Some (spec_coerce flt v)"
proof (induction flt c fs bag "(d, b)" arbitrary: d b rule: ingest_loop.induct)
  case (1 flt caught fs acc)
  then show ?case by simp
next
  case (2 flt caught fs field w rest d found)
  show ?case
  proof (cases "(k, v) = (field, w)")
    case True
    then have kv: "k = field" "v = w" by simp_all
    from "2.prems" kv have notin: "k \<notin> fst ` set rest \<inter> set fs" by force
    from "2.prems" kv obtain d1 where
      step: "ingest_loop flt caught fs rest (d1, True) = Inr (d', b')"
      and d1: "map_of d1 k = Some (spec_coerce flt v)"
      by (auto simp: update_conv' spec_coerce_def split: if_splits sum.splits)
    from ingest_loop_unwritten [OF step notin] d1 show ?thesis by simp
  next
    case False
    with "2.prems" have mem: "(k, v) \<in> set rest" and dist: "distinct (map fst rest)" by auto
    from "2.prems"(1) "2.hyps" mem dist "2.prems"(4) show ?thesis
      by (auto split: if_splits sum.splits)
  qed
qed

lemma ingest_loop_found:
  "ingest_loop flt c fs bag (d, b) = Inr (d', b')
     \<Longrightarrow> b' = (b \<or> fst ` set bag \<inter> set fs \<noteq> {})"
  by (induction flt c fs bag "(d, b)" arbitrary: d b rule: ingest_loop.induct)
     (auto split: if_splits sum.splits)

lemma ingest_loop_total:
  "\<forall>(k, v) \<in> set bag. k \<in> set fs \<longrightarrow> raises_only c flt v
     \<Longrightarrow> \<exists>d' b'. ingest_loop flt c fs bag (d, b) = Inr (d', b')"
  by (induction flt c fs bag "(d, b)" arbitrary: d b rule: ingest_loop.induct)
     (auto simp: raises_only_def split: if_splits sum.splits)

lemma query_dict_aux:
  "fst ` set (fold (\<lambda>(k, v) d. AList.update k v d) ps d0) = fst ` set d0 \<union> fst ` set ps
   \<and> (distinct (map fst d0) \<longrightarrow> distinct (map fst (fold (\<lambda>(k, v) d. AList.update k v d) ps d0)))"
  by (induction ps arbitrary: d0) (auto simp: dom_update distinct_update split: prod.splits)


lemma query_dict_distinct: "distinct (map fst (query_dict ps))"
  using query_dict_aux [of ps "[]"] by (simp add: query_dict_def)


lemma query_bag_distinct:
  "distinct (map fst qd) \<Longrightarrow> distinct (map fst (query_bag qd :: (string \<times> 'f pyval) list))"
proof -
  have "map fst (query_bag qd :: (string \<times> 'f pyval) list)
          = filter (\<lambda>k. k \<noteq> ''api_key'') (map fst qd)"
    by (induction qd) (auto simp: query_bag_def)
  then show "distinct (map fst qd) \<Longrightarrow> ?thesis" by simp
qed

lemma float_decimal_752: "float_decimal (PyStr ''75.2'') = Inr (752 / 10)"
  by (simp add: float_decimal_def parse_decimal_def digit_of_def)

lemma float_decimal_online: "float_decimal (PyStr ''online'') = Inl ValueError"
  by (simp add: float_decimal_def parse_decimal_def digit_of_def)

lemma tank3_find: "find_one tank3 ''tank3'' = Some tank3_channel"
  by (simp add: find_one_def tank3_def tank3_channel_def)

lemma tank3_coap: "coap_authorize 2 tank3 (put_request bag) = Inr tank3_channel"
  by (simp add: coap_authorize_def coap_query_params_def put_request_def find_one_def tank3_def
      tank3_channel_def)

section \<open>Rejection of a bag without a valid field\<close>



section \<open>Numeric coercion of the stored values\<close>

text \<open>
  Claim C2. The \<open>except\<close> clause of the JSON body write and of the CoAP PUT names
  \<open>ValueError\<close> and \<open>TypeError\<close>. For a JSON integer too large for a float, \<open>float\<close>
  raises \<open>OverflowError\<close>: the parse fails, the handler does not catch the exception,
  the request ends in a server error and nothing is stored, where the claim (and the
  comment in the handler, "otherwise store as is") has the raw value stored unchanged.
\<close>

theorem huge_integer_unhandled:
  "write_data float_decimal 200 tank3 ''tank3'' ''XWHX1ZJA6Q8F'' [(''level'', PyInt huge_integer)]
     = (Inl (Unhandled OverflowError), tank3)
   \<and> render_put float_decimal (\<lambda>t. ''T'') 200 tank3 (put_request [(''level'', PyInt huge_integer)])
     = (Inl (Unhandled OverflowError), tank3)"
proof -
  have p: "payload (put_request [(''level'', PyInt huge_integer)]) = Json (PyDict [(''level'', PyInt huge_integer)])"
    by (simp add: put_request_def)
  have f: "float_decimal (PyInt huge_integer) = Inl OverflowError"
    by (simp add: float_decimal_def huge_integer_def)
  show ?thesis
    by (simp add: write_data_def render_put_def tank3_find tank3_coap p f tank3_channel_def)
qed

text \<open>
  On every other value the three adapters do what the claim says. When the call is
  authorized and \<open>float\<close> raises, on the values of the bag's valid fields, nothing but
  what the handler catches, one record is appended, and for every pair \<open>(field, raw)\<close>
  of the bag with the field in the channel's field set the record holds at \<open>field\<close> the
  float parsed from \<open>raw\<close>, or \<open>raw\<close> itself when the parse fails. The keys of a bag are
  distinct (it is a dictionary); a query parameter's value is the string \<open>text\<close>.
\<close>

theorem stored_value_is_coerced:
  "(find_one s n = Some ch \<and> key = api_key ch \<and> distinct (map fst bag)
      \<and> (field, raw) \<in> set bag \<and> field \<in> set (field_names ch)
      \<and> (\<forall>(k, v) \<in> set bag. k \<in> set (field_names ch) \<longrightarrow> raises_only [ValueError, TypeError] flt v)
      \<longrightarrow> (\<exists>r d. write_data flt now s n key bag = (Inr r, s\<lparr>data := data s @ [d]\<rparr>)
                 \<and> map_of d field = Some (spec_coerce flt raw)))
   \<and> (find_one s n = Some ch \<and> map_of (query_dict params) ''api_key'' = Some (api_key ch)
        \<and> api_key ch \<noteq> [] \<and> map_of (query_dict params) field = Some text
        \<and> field \<noteq> ''api_key'' \<and> field \<in> set (field_names ch)
        \<and> (\<forall>(k, v) \<in> set (query_dict params). k \<in> set (field_names ch)
              \<longrightarrow> raises_only [ValueError] flt (PyStr v))
      \<longrightarrow> (\<exists>r d. update_channel_data_by_query_params flt now s n params
                    = (Inr r, s\<lparr>data := data s @ [d]\<rparr>)
                 \<and> map_of d field = Some (spec_coerce flt (PyStr text))))
   \<and> (coap_authorize 2 s req = Inr ch \<and> payload req = Json (PyDict bag) \<and> distinct (map fst bag)
        \<and> (field, raw) \<in> set bag \<and> field \<in> set (field_names ch)
        \<and> (\<forall>(k, v) \<in> set bag. k \<in> set (field_names ch) \<longrightarrow> raises_only [ValueError, TypeError] flt v)
      \<longrightarrow> (\<exists>d. snd (render_put flt isoformat now s req) = s\<lparr>data := data s @ [d]\<rparr>
               \<and> map_of d field = Some (spec_coerce flt raw)))"
proof (intro conjI impI)
  assume h: "find_one s n = Some ch \<and> key = api_key ch \<and> distinct (map fst bag)
      \<and> (field, raw) \<in> set bag \<and> field \<in> set (field_names ch)
      \<and> (\<forall>(k, v) \<in> set bag. k \<in> set (field_names ch) \<longrightarrow> raises_only [ValueError, TypeError] flt v)"
  then obtain d b where
    loop: "ingest_loop flt [ValueError, TypeError] (field_names ch) bag (new_doc n now, False) = Inr (d, b)"
    using ingest_loop_total [of bag "field_names ch" "[ValueError, TypeError]" flt "new_doc n now" False]
    by blast
  from h have "fst ` set bag \<inter> set (field_names ch) \<noteq> {}" by force
  with ingest_loop_found [OF loop] have b by simp
  from h ingest_loop_value [OF loop] have "map_of d field = Some (spec_coerce flt raw)" by blast
  with h loop \<open>b\<close>
  show "\<exists>r d. write_data flt now s n key bag = (Inr r, s\<lparr>data := data s @ [d]\<rparr>)
                 \<and> map_of d field = Some (spec_coerce flt raw)"
    by (simp add: write_data_def insert_one_def, blast)
next
  assume h: "find_one s n = Some ch \<and> map_of (query_dict params) ''api_key'' = Some (api_key ch)
        \<and> api_key ch \<noteq> [] \<and> map_of (query_dict params) field = Some text
        \<and> field \<noteq> ''api_key'' \<and> field \<in> set (field_names ch)
        \<and> (\<forall>(k, v) \<in> set (query_dict params). k \<in> set (field_names ch)
              \<longrightarrow> raises_only [ValueError] flt (PyStr v))"
  let ?bag = "query_bag (query_dict params) :: (string \<times> 'a pyval) list"
  from h have "\<forall>(k, v) \<in> set ?bag. k \<in> set (field_names ch) \<longrightarrow> raises_only [ValueError] flt v"
    by (auto simp: query_bag_def)
  then obtain d b where
    loop: "ingest_loop flt [ValueError] (field_names ch) ?bag (new_doc n now, False) = Inr (d, b)"
    using ingest_loop_total [of ?bag "field_names ch" "[ValueError]" flt "new_doc n now" False]
    by blast
  from h have mem0: "(field, text) \<in> set (query_dict params)" by (simp add: map_of_SomeD)
  with h have mem: "(field, PyStr text) \<in> set ?bag" by (force simp: query_bag_def)
  with h have "fst ` set ?bag \<inter> set (field_names ch) \<noteq> {}" by force
  with ingest_loop_found [OF loop] have b by simp
  have "distinct (map fst ?bag)" by (rule query_bag_distinct) (rule query_dict_distinct)
  from ingest_loop_value [OF loop this mem] h
  have "map_of d field = Some (spec_coerce flt (PyStr text))" by blast
  with h loop \<open>b\<close>
  show "\<exists>r d. update_channel_data_by_query_params flt now s n params
                    = (Inr r, s\<lparr>data := data s @ [d]\<rparr>)
                 \<and> map_of d field = Some (spec_coerce flt (PyStr text))"
    by (simp add: update_channel_data_by_query_params_def insert_one_def, blast)
next
  assume h: "coap_authorize 2 s req = Inr ch \<and> payload req = Json (PyDict bag) \<and> distinct (map fst bag)
        \<and> (field, raw) \<in> set bag \<and> field \<in> set (field_names ch)
        \<and> (\<forall>(k, v) \<in> set bag. k \<in> set (field_names ch) \<longrightarrow> raises_only [ValueError, TypeError] flt v)"
  then obtain d b where
    loop: "ingest_loop flt [ValueError, TypeError] (field_names ch) bag
             (new_doc (uri_path req ! 1) now, False) = Inr (d, b)"
    using ingest_loop_total [of bag "field_names ch" "[ValueError, TypeError]" flt
        "new_doc (uri_path req ! 1) now" False]
    by blast
  from h have "fst ` set bag \<inter> set (field_names ch) \<noteq> {}" by force
  with ingest_loop_found [OF loop] have b by simp
  from h ingest_loop_value [OF loop] have v: "map_of d field = Some (spec_coerce flt raw)" by blast
  from h loop \<open>b\<close> have "snd (render_put flt isoformat now s req) = s\<lparr>data := data s @ [d]\<rparr>"
    by (simp add: render_put_def insert_one_def split: pyval.splits)
  with v show "\<exists>d. snd (render_put flt isoformat now s req) = s\<lparr>data := data s @ [d]\<rparr>
               \<and> map_of d field = Some (spec_coerce flt raw)"
    by blast
qed

theorem stored_value_is_coerced_witness:
  "(\<exists>r d. write_data float_decimal 200 tank3 ''tank3'' ''XWHX1ZJA6Q8F''
             [(''level'', PyStr ''75.2''), (''status'', PyStr ''online'')]
             = (Inr r, tank3\<lparr>data := data tank3 @ [d]\<rparr>)
          \<and> map_of d ''level'' = Some (PyFloat (752 / 10)))
   \<and> (\<exists>r d. update_channel_data_by_query_params float_decimal 200 tank3 ''tank3''
             [(''api_key'', ''XWHX1ZJA6Q8F''), (''level'', ''75.2''), (''status'', ''online'')]
             = (Inr r, tank3\<lparr>data := data tank3 @ [d]\<rparr>)
          \<and> map_of d ''status'' = Some (PyStr ''online''))
   \<and> (\<exists>d. snd (render_put float_decimal (\<lambda>t. ''T'') 200 tank3
                   (put_request [(''level'', PyStr ''75.2''), (''status'', PyStr ''online'')]))
             = tank3\<lparr>data := data tank3 @ [d]\<rparr>
          \<and> map_of d ''level'' = Some (PyFloat (752 / 10)))"
proof -
  let ?bag = "[(''level'', PyStr ''75.2''), (''status'', PyStr ''online'')] :: (string \<times> rat pyval) list"
  let ?params = "[(''api_key'', ''XWHX1ZJA6Q8F''), (''level'', ''75.2''), (''status'', ''online'')]"
  have k: "''XWHX1ZJA6Q8F'' = api_key tank3_channel" "api_key tank3_channel \<noteq> []"
    by (simp_all add: tank3_channel_def)
  have b1: "distinct (map fst ?bag)" "(''level'', PyStr ''75.2'') \<in> set ?bag"
    "''level'' \<in> set (field_names tank3_channel)" "''status'' \<in> set (field_names tank3_channel)"
    by (simp_all add: tank3_channel_def)
  have b2: "\<forall>(k, v) \<in> set ?bag. k \<in> set (field_names tank3_channel)
              \<longrightarrow> raises_only [ValueError, TypeError] float_decimal v"
    by (simp add: raises_only_def float_decimal_752 float_decimal_online)
  have qd: "query_dict ?params = ?params" by (simp add: query_dict_def)
  have q1: "map_of (query_dict ?params) ''api_key'' = Some (api_key tank3_channel)"
    "map_of (query_dict ?params) ''status'' = Some ''online''" "''status'' \<noteq> ''api_key''"
    by (simp_all add: qd tank3_channel_def)
  have q2: "\<forall>(k, v) \<in> set (query_dict ?params). k \<in> set (field_names tank3_channel)
              \<longrightarrow> raises_only [ValueError] float_decimal (PyStr v)"
    by (simp add: qd raises_only_def float_decimal_752 float_decimal_online tank3_channel_def)
  have p: "payload (put_request ?bag) = Json (PyDict ?bag)" by (simp add: put_request_def)
  have c: "spec_coerce float_decimal (PyStr ''75.2'') = PyFloat (752 / 10)"
    "spec_coerce float_decimal (PyStr ''online'') = PyStr ''online''"
    by (simp_all add: spec_coerce_def float_decimal_752 float_decimal_online)
  show ?thesis
    using stored_value_is_coerced [of tank3 "''tank3''" tank3_channel "''XWHX1ZJA6Q8F''" ?bag
        "''level''" "PyStr ''75.2''" float_decimal 200 ?params]
      stored_value_is_coerced [of tank3 "''tank3''" tank3_channel "''XWHX1ZJA6Q8F''" ?bag
        "''status''" "PyStr ''online''" float_decimal 200 ?params "''online''" "put_request ?bag"]
      stored_value_is_coerced [of tank3 "''tank3''" tank3_channel "''XWHX1ZJA6Q8F''" ?bag
        "''level''" "PyStr ''75.2''" float_decimal 200 ?params "''online''" "put_request ?bag"
        "\<lambda>t. ''T''"]
      tank3_find tank3_coap k b1 b2 q1 q2 p c
    by simp
qed

section \<open>Dictionaries built by a loop of assignments\<close>

lemma fold_cond_update_other:
  "k \<notin> A \<or> k \<notin> fst ` set xs
     \<Longrightarrow> map_of (fold (\<lambda>(f, v) d. if f \<in> A then AList.update f v d else d) xs d0) k = map_of d0 k"
  by (induction xs arbitrary: d0) (auto simp: update_conv' split: prod.splits)

lemma fold_cond_update_keys:
  "fst ` set (fold (\<lambda>(f, v) d. if f \<in> A then AList.update f v d else d) xs d0)
     = fst ` set d0 \<union> (A \<inter> fst ` set xs)"
  by (induction xs arbitrary: d0) (auto simp: dom_update split: prod.splits)

lemma fold_cond_update_value:
  "distinct (map fst xs) \<Longrightarrow> k \<in> A \<Longrightarrow> k \<in> fst ` set xs
     \<Longrightarrow> map_of (fold (\<lambda>(f, v) d. if f \<in> A then AList.update f v d else d) xs d0) k = map_of xs k"
proof (induction xs arbitrary: d0)
  case Nil
  then show ?case by simp
next
  case (Cons x xs)
  obtain f v where x: "x = (f, v)" by (cases x)
  show ?case
  proof (cases "k = f")
    case True
    with Cons.prems x have "k \<notin> fst ` set xs" by force
    with True x Cons.prems show ?thesis
      by (simp add: fold_cond_update_other update_conv')
  next
    case False
    with Cons x show ?thesis by auto
  qed
qed

lemma fold_update_other:
  "k \<notin> fst ` set xs \<Longrightarrow> map_of (fold (\<lambda>(f, v) d. AList.update f v d) xs d0) k = map_of d0 k"
  by (induction xs arbitrary: d0) (auto simp: update_conv' split: prod.splits)

lemma fold_sentinel:
  "map_of (fold (\<lambda>f d. AList.update f v d) fs d0) k = (if k \<in> set fs then Some v else map_of d0 k)"
  by (induction fs arbitrary: d0) (auto simp: update_conv')

section \<open>The MQTT subscriber against the other adapters\<close>

text \<open>
  Claim C1. The MQTT subscriber does not do what the HTTP and CoAP ingestion does. On
  the channel \<open>tank3\<close> with the bag \<open>{"level": "75.2"}\<close> it stores the string where
  \<open>write_data\<close> stores the number, and with a bag that has no field of the channel it
  appends a record without any field where \<open>write_data\<close> answers \<open>NoValidFields\<close> and
  stores nothing.
\<close>

theorem save_mqtt_data_differs:
  "save_mqtt_data ''u1'' 200 tank3 ''tank3'' [(''level'', PyStr ''75.2'')]
     = tank3\<lparr>data := data tank3 @
         [[(''_id'', PyStr ''u1''), (''tank_id'', PyStr ''tank3''), (''timestamp'', PyDatetime 200),
           (''level'', PyStr ''75.2'')]]\<rparr>
   \<and> snd (write_data float_decimal 200 tank3 ''tank3'' ''XWHX1ZJA6Q8F'' [(''level'', PyStr ''75.2'')])
     = tank3\<lparr>data := data tank3 @
         [[(''tank_id'', PyStr ''tank3''), (''timestamp'', PyDatetime 200),
           (''level'', PyFloat (752 / 10))]]\<rparr>
   \<and> save_mqtt_data ''u1'' 200 tank3 ''tank3'' [(''battery_level'', PyStr ''80%'')]
     = tank3\<lparr>data := data tank3 @
         [[(''_id'', PyStr ''u1''), (''tank_id'', PyStr ''tank3''), (''timestamp'', PyDatetime 200)]]\<rparr>
   \<and> write_data float_decimal 200 tank3 ''tank3'' ''XWHX1ZJA6Q8F'' [(''battery_level'', PyStr ''80%'')]
     = (Inl NoValidFields, tank3)"
  by (simp add: save_mqtt_data_def write_data_def tank3_find tank3_channel_def insert_one_def
      new_doc_def getitem_def float_decimal_752)

section \<open>The seed record of a registration\<close>

lemma seed_doc_none:
  "iv = None \<or> iv = Some [] \<Longrightarrow>
     map_of (seed_doc n now fs iv) k = (if k \<in> set fs then Some (PyStr ''N/A'') else map_of (new_doc n now) k)"
  by (auto simp: seed_doc_def fold_sentinel)

lemma seed_doc_some:
  "ivs \<noteq> [] \<Longrightarrow>
     seed_doc n now fs (Some ivs)
       = fold (\<lambda>(f, v) d. if f \<in> set fs then AList.update f v d else d) ivs (new_doc n now)"
  by (cases ivs) (simp_all add: seed_doc_def)

text \<open>
  Claim C4, the counterexample. Registering \<open>t\<close> with the fields \<open>a\<close> and \<open>b\<close> and the
  initial values \<open>{"a": 1}\<close> gives a seed record without the key \<open>b\<close>: the field that
  has no initial value is not set to \<open>"N/A"\<close>.
\<close>

theorem seed_uncovered_field_counterexample:
  "data (snd (create_channel ''KEY'' 100 empty_store ''t'' [''a'', ''b''] (Some [(''a'', PyInt 1)])))
     = [[(''tank_id'', PyStr ''t''), (''timestamp'', PyDatetime 100), (''a'', PyInt 1)]]
   \<and> map_of (seed_doc ''t'' 100 [''a'', ''b''] (Some [(''a'', PyInt 1 :: rat pyval)])) ''b''
       \<noteq> Some (PyStr ''N/A'')"
  by (simp add: create_channel_def empty_store_def find_one_def insert_one_def seed_doc_def new_doc_def)

text \<open>
  Claim C4 as amended. A registration under a new name appends one channel and one
  record, the seed record. A key that is not a declared field (and is not one of
  \<open>tank_id\<close>, \<open>timestamp\<close>) is absent from it. Without initial values (none, or the
  empty dictionary) every declared field is \<open>"N/A"\<close>. With initial values, a declared
  field that has one carries it, and a declared field that has none is absent.
\<close>

theorem seed_record:
  "find_one s n = None \<longrightarrow>
     (\<exists>r. create_channel key now s n fs iv
            = (Inr r, \<lparr>channels = channels s @ [\<lparr>channel_name = n, api_key = key, field_names = fs\<rparr>],
                       data = data s @ [seed_doc n now fs iv]\<rparr>))
     \<and> (\<forall>k. k \<notin> set fs \<and> k \<noteq> ''tank_id'' \<and> k \<noteq> ''timestamp''
            \<longrightarrow> map_of (seed_doc n now fs iv) k = None)
     \<and> (iv = None \<or> iv = Some []
          \<longrightarrow> (\<forall>f \<in> set fs. map_of (seed_doc n now fs iv) f = Some (PyStr ''N/A'')))
     \<and> (\<forall>ivs. iv = Some ivs \<and> ivs \<noteq> [] \<and> distinct (map fst ivs)
          \<longrightarrow> (\<forall>f \<in> set fs.
                 (f \<in> fst ` set ivs \<longrightarrow> map_of (seed_doc n now fs iv) f = map_of ivs f)
                 \<and> (f \<notin> fst ` set ivs \<and> f \<noteq> ''tank_id'' \<and> f \<noteq> ''timestamp''
                      \<longrightarrow> map_of (seed_doc n now fs iv) f = None)))"
proof (intro impI conjI allI ballI)
  assume "find_one s n = None"
  then show "\<exists>r. create_channel key now s n fs iv
            = (Inr r, \<lparr>channels = channels s @ [\<lparr>channel_name = n, api_key = key, field_names = fs\<rparr>],
                       data = data s @ [seed_doc n now fs iv]\<rparr>)"
    by (simp add: create_channel_def insert_one_def)
next
  fix k assume k: "k \<notin> set fs \<and> k \<noteq> ''tank_id'' \<and> k \<noteq> ''timestamp''"
  show "map_of (seed_doc n now fs iv) k = None"
  proof (cases "iv = None \<or> iv = Some []")
    case True
    with k show ?thesis by (simp add: seed_doc_none new_doc_def)
  next
    case False
    then obtain ivs where "iv = Some ivs" "ivs \<noteq> []" by auto
    with k show ?thesis by (simp add: seed_doc_some fold_cond_update_other new_doc_def)
  qed
next
  fix f assume "iv = None \<or> iv = Some []" "f \<in> set fs"
  then show "map_of (seed_doc n now fs iv) f = Some (PyStr ''N/A'')"
    by (simp add: seed_doc_none)
next
  fix ivs f
  assume h: "iv = Some ivs \<and> ivs \<noteq> [] \<and> distinct (map fst ivs)" and f: "f \<in> set fs"
    and m: "f \<in> fst ` set ivs"
  then show "map_of (seed_doc n now fs iv) f = map_of ivs f"
    by (simp add: seed_doc_some fold_cond_update_value)
next
  fix ivs f
  assume h: "iv = Some ivs \<and> ivs \<noteq> [] \<and> distinct (map fst ivs)" and f: "f \<in> set fs"
    and m: "f \<notin> fst ` set ivs \<and> f \<noteq> ''tank_id'' \<and> f \<noteq> ''timestamp''"
  then show "map_of (seed_doc n now fs iv) f = None"
    by (simp add: seed_doc_some fold_cond_update_other new_doc_def)
qed

theorem seed_record_witness:
  "find_one empty_store ''t'' = None
   \<and> (\<exists>r. create_channel ''KEY'' 100 empty_store ''t'' [''a'', ''b''] (Some [(''a'', PyInt 1), (''c'', PyInt 2)])
            = (Inr r, \<lparr>channels = channels empty_store
                         @ [\<lparr>channel_name = ''t'', api_key = ''KEY'', field_names = [''a'', ''b'']\<rparr>],
                       data = data empty_store
                         @ [seed_doc ''t'' 100 [''a'', ''b''] (Some [(''a'', PyInt 1), (''c'', PyInt 2)])]\<rparr>))
   \<and> map_of (seed_doc ''t'' 100 [''a'', ''b''] (Some [(''a'', PyInt 1), (''c'', PyInt 2 :: rat pyval)])) ''c'' = None
   \<and> map_of (seed_doc ''t'' 100 [''a'', ''b''] (Some [(''a'', PyInt 1), (''c'', PyInt 2 :: rat pyval)])) ''a''
       = Some (PyInt 1)
   \<and> map_of (seed_doc ''t'' 100 [''a'', ''b''] (Some [(''a'', PyInt 1), (''c'', PyInt 2 :: rat pyval)])) ''b'' = None
   \<and> map_of (seed_doc ''t'' 100 [''a'', ''b''] (None :: (string \<times> rat pyval) list option)) ''b''
       = Some (PyStr ''N/A'')"
proof -
  let ?iv = "[(''a'', PyInt 1), (''c'', PyInt 2)] :: (string \<times> rat pyval) list"
  have h: "find_one empty_store ''t'' = None" by (simp add: find_one_def empty_store_def)
  have a: "?iv \<noteq> [] \<and> distinct (map fst ?iv)" "''a'' \<in> fst ` set ?iv" "''b'' \<notin> fst ` set ?iv"
    "map_of ?iv ''a'' = Some (PyInt 1)" "''c'' \<notin> set [''a'', ''b'']"
    by simp_all
  from seed_record [of empty_store "''t''" "''KEY''" 100 "[''a'', ''b'']" "Some ?iv"]
    seed_record [of empty_store "''t''" "''KEY''" 100 "[''a'', ''b'']" None] h a
  show ?thesis by simp
qed

section \<open>The timestamp of a persisted record\<close>

text \<open>
  Claim C5, the counterexample. On a channel that declares a field named \<open>timestamp\<close>,
  the bag decides the stored timestamp: \<open>write_data\<close> with \<open>{"timestamp": "5"}\<close> stores
  the number 5, and the MQTT subscriber stores the string it is sent.
\<close>

theorem client_timestamp_counterexample:
  "snd (write_data float_decimal 200 clock_store ''clock'' ''KEY'' [(''timestamp'', PyStr ''5'')])
     = clock_store\<lparr>data := [[(''tank_id'', PyStr ''clock''), (''timestamp'', PyFloat 5)]]\<rparr>
   \<and> save_mqtt_data ''u1'' 200 clock_store ''clock'' [(''timestamp'', PyStr ''yesterday'')]
     = clock_store\<lparr>data := [[(''_id'', PyStr ''u1''), (''tank_id'', PyStr ''clock''),
                                (''timestamp'', PyStr ''yesterday'')]]\<rparr>"
  by (simp add: write_data_def save_mqtt_data_def clock_store_def find_one_def insert_one_def
      new_doc_def getitem_def float_decimal_def parse_decimal_def digit_of_def)

text \<open>
  Claim C5 as amended. On a channel whose field set does not contain \<open>timestamp\<close>,
  whatever the bag holds: each of the three adapters with a result leaves the store as
  it was or appends one record whose \<open>timestamp\<close> is the time of the server, and the
  MQTT subscriber appends one such record.
\<close>

theorem timestamp_is_server_time:
  "(find_one s n = Some ch \<and> ''timestamp'' \<notin> set (field_names ch)
      \<longrightarrow> snd (write_data flt now s n key bag) = s
          \<or> (\<exists>d. snd (write_data flt now s n key bag) = s\<lparr>data := data s @ [d]\<rparr>
                \<and> map_of d ''timestamp'' = Some (PyDatetime now)))
   \<and> (find_one s n = Some ch \<and> ''timestamp'' \<notin> set (field_names ch)
      \<longrightarrow> snd (update_channel_data_by_query_params flt now s n params) = s
          \<or> (\<exists>d. snd (update_channel_data_by_query_params flt now s n params) = s\<lparr>data := data s @ [d]\<rparr>
                \<and> map_of d ''timestamp'' = Some (PyDatetime now)))
   \<and> (coap_authorize 2 s req = Inr ch \<and> ''timestamp'' \<notin> set (field_names ch)
      \<longrightarrow> snd (render_put flt isoformat now s req) = s
          \<or> (\<exists>d. snd (render_put flt isoformat now s req) = s\<lparr>data := data s @ [d]\<rparr>
                \<and> map_of d ''timestamp'' = Some (PyDatetime now)))
   \<and> (find_one s n = Some ch \<and> ''timestamp'' \<notin> set (field_names ch)
      \<longrightarrow> (\<exists>d. save_mqtt_data uuid now s n bag = s\<lparr>data := data s @ [d]\<rparr>
                \<and> map_of d ''timestamp'' = Some (PyDatetime now)))"
proof (intro conjI impI)
  assume h: "find_one s n = Some ch \<and> ''timestamp'' \<notin> set (field_names ch)"
  show "snd (write_data flt now s n key bag) = s
          \<or> (\<exists>d. snd (write_data flt now s n key bag) = s\<lparr>data := data s @ [d]\<rparr>
                \<and> map_of d ''timestamp'' = Some (PyDatetime now))"
  proof (cases "ingest_loop flt [ValueError, TypeError] (field_names ch) bag (new_doc n now, False)")
    case (Inl e)
    with h show ?thesis by (simp add: write_data_def)
  next
    case (Inr r)
    obtain d b where r: "r = (d, b)" by (cases r)
    from Inr r h ingest_loop_unwritten [of flt _ "field_names ch" bag "new_doc n now" False d b "''timestamp''"]
    have "map_of d ''timestamp'' = Some (PyDatetime now)" by (simp add: new_doc_def)
    with Inr r h show ?thesis by (auto simp: write_data_def insert_one_def)
  qed
next
  assume h: "find_one s n = Some ch \<and> ''timestamp'' \<notin> set (field_names ch)"
  let ?bag = "query_bag (query_dict params) :: (string \<times> 'a pyval) list"
  show "snd (update_channel_data_by_query_params flt now s n params) = s
          \<or> (\<exists>d. snd (update_channel_data_by_query_params flt now s n params) = s\<lparr>data := data s @ [d]\<rparr>
                \<and> map_of d ''timestamp'' = Some (PyDatetime now))"
  proof (cases "ingest_loop flt [ValueError] (field_names ch) ?bag (new_doc n now, False)")
    case (Inl e)
    with h show ?thesis
      by (simp add: update_channel_data_by_query_params_def Let_def split: option.splits)
  next
    case (Inr r)
    obtain d b where r: "r = (d, b)" by (cases r)
    from Inr r h ingest_loop_unwritten [of flt _ "field_names ch" ?bag "new_doc n now" False d b "''timestamp''"]
    have "map_of d ''timestamp'' = Some (PyDatetime now)" by (simp add: new_doc_def)
    with Inr r h show ?thesis
      by (auto simp: update_channel_data_by_query_params_def Let_def insert_one_def split: option.splits)
  qed
next
  assume h: "coap_authorize 2 s req = Inr ch \<and> ''timestamp'' \<notin> set (field_names ch)"
  have other: "snd (render_put flt isoformat now s req) = s" if "\<And>bag. payload req \<noteq> Json (PyDict bag)"
    using that h by (cases "payload req") (auto simp: render_put_def split: pyval.splits)
  show "snd (render_put flt isoformat now s req) = s
          \<or> (\<exists>d. snd (render_put flt isoformat now s req) = s\<lparr>data := data s @ [d]\<rparr>
                \<and> map_of d ''timestamp'' = Some (PyDatetime now))"
  proof (cases "\<exists>bag. payload req = Json (PyDict bag)")
    case False
    then show ?thesis using other by blast
  next
    case True
    then obtain bag where p: "payload req = Json (PyDict bag)" by blast
    show ?thesis
    proof (cases "ingest_loop flt [ValueError, TypeError] (field_names ch) bag
                    (new_doc (uri_path req ! 1) now, False)")
      case (Inl e)
      with h p show ?thesis by (simp add: render_put_def)
    next
      case (Inr r)
      obtain d b where r: "r = (d, b)" by (cases r)
      from Inr r h ingest_loop_unwritten [of flt _ "field_names ch" bag
          "new_doc (uri_path req ! 1) now" False d b "''timestamp''"]
      have "map_of d ''timestamp'' = Some (PyDatetime now)" by (simp add: new_doc_def)
      with Inr r h p show ?thesis by (auto simp: render_put_def insert_one_def getitem_def)
    qed
  qed
next
  assume h: "find_one s n = Some ch \<and> ''timestamp'' \<notin> set (field_names ch)"
  let ?cleaned = "fold (\<lambda>(k, v) d. if k \<in> set (field_names ch) then AList.update k v d else d) bag []"
  let ?entry = "fold (\<lambda>(k, v) d. AList.update k v d) ?cleaned
                  [(''_id'', PyStr uuid), (''tank_id'', PyStr n), (''timestamp'', PyDatetime now)]"
  from h have "''timestamp'' \<notin> fst ` set ?cleaned" by (simp add: fold_cond_update_keys)
  then have "map_of ?entry ''timestamp'' = Some (PyDatetime now)"
    by (simp add: fold_update_other)
  with h show "\<exists>d. save_mqtt_data uuid now s n bag = s\<lparr>data := data s @ [d]\<rparr>
                \<and> map_of d ''timestamp'' = Some (PyDatetime now)"
    by (simp add: save_mqtt_data_def insert_one_def, blast)
qed

theorem timestamp_is_server_time_witness:
  "find_one tank3 ''tank3'' = Some tank3_channel
   \<and> coap_authorize 2 tank3 (put_request [(''level'', PyStr ''75.2''), (''timestamp'', PyStr ''5'')])
       = Inr tank3_channel
   \<and> ''timestamp'' \<notin> set (field_names tank3_channel)
   \<and> (snd (write_data float_decimal 200 tank3 ''tank3'' ''XWHX1ZJA6Q8F''
              [(''level'', PyStr ''75.2''), (''timestamp'', PyStr ''5'')]) = tank3
       \<or> (\<exists>d. snd (write_data float_decimal 200 tank3 ''tank3'' ''XWHX1ZJA6Q8F''
                     [(''level'', PyStr ''75.2''), (''timestamp'', PyStr ''5'')])
                 = tank3\<lparr>data := data tank3 @ [d]\<rparr>
               \<and> map_of d ''timestamp'' = Some (PyDatetime 200)))
   \<and> (snd (update_channel_data_by_query_params float_decimal 200 tank3 ''tank3''
              [(''api_key'', ''XWHX1ZJA6Q8F''), (''timestamp'', ''5'')]) = tank3
       \<or> (\<exists>d. snd (update_channel_data_by_query_params float_decimal 200 tank3 ''tank3''
                     [(''api_key'', ''XWHX1ZJA6Q8F''), (''timestamp'', ''5'')])
                 = tank3\<lparr>data := data tank3 @ [d]\<rparr>
               \<and> map_of d ''timestamp'' = Some (PyDatetime 200)))
   \<and> (snd (render_put float_decimal (\<lambda>t. ''T'') 200 tank3
              (put_request [(''level'', PyStr ''75.2''), (''timestamp'', PyStr ''5'')])) = tank3
       \<or> (\<exists>d. snd (render_put float_decimal (\<lambda>t. ''T'') 200 tank3
                     (put_request [(''level'', PyStr ''75.2''), (''timestamp'', PyStr ''5'')]))
                 = tank3\<lparr>data := data tank3 @ [d]\<rparr>
               \<and> map_of d ''timestamp'' = Some (PyDatetime 200)))
   \<and> (\<exists>d. save_mqtt_data ''u1'' 200 tank3 ''tank3'' [(''level'', PyStr ''75.2''), (''timestamp'', PyStr ''5'')]
             = tank3\<lparr>data := data tank3 @ [d]\<rparr>
          \<and> map_of d ''timestamp'' = Some (PyDatetime 200))"
proof -
  have h: "''timestamp'' \<notin> set (field_names tank3_channel)" by (simp add: tank3_channel_def)
  from timestamp_is_server_time [of tank3 "''tank3''" tank3_channel float_decimal 200 "''XWHX1ZJA6Q8F''"
      "[(''level'', PyStr ''75.2''), (''timestamp'', PyStr ''5'')]"
      "[(''api_key'', ''XWHX1ZJA6Q8F''), (''timestamp'', ''5'')]"
      "put_request [(''level'', PyStr ''75.2''), (''timestamp'', PyStr ''5'')]" "\<lambda>t. ''T''" "''u1''"]
    tank3_find tank3_coap h
  show ?thesis by simp
qed

section \<open>Duplicates in the field list\<close>

text \<open>
  Claim C7. \<open>create_channel\<close> stores the list of fields as it receives it: registering
  a channel with the fields \<open>["a", "a"]\<close> leaves a channel whose field list has a
  duplicate.
\<close>

theorem registration_keeps_duplicates:
  "channels (snd (create_channel ''KEY'' 100 empty_store ''t'' [''a'', ''a''] None))
     = [\<lparr>channel_name = ''t'', api_key = ''KEY'', field_names = [''a'', ''a'']\<rparr>]
   \<and> \<not> no_duplicate_fields (snd (create_channel ''KEY'' 100 empty_store ''t'' [''a'', ''a''] None))"
  by (simp add: create_channel_def empty_store_def find_one_def insert_one_def no_duplicate_fields_def)

text \<open>
  The other operations on the field list keep the invariant: a registration with a list
  without repetition, every update (whose list is the enumeration of a set) and every
  removal of a field.
\<close>

lemma list_all_update_first:
  "list_all P xs \<Longrightarrow> (\<And>x. P x \<Longrightarrow> P (f x)) \<Longrightarrow> list_all P (update_first p f xs)"
  by (induction xs) auto

lemma current_fields_distinct: "distinct (current_fields fs add_fields remove_fields)"
  by (simp add: current_fields_def)

lemma create_channel_no_duplicates:
  "no_duplicate_fields s \<Longrightarrow> distinct fs
     \<Longrightarrow> no_duplicate_fields (snd (create_channel key now s n fs iv))"
  by (auto simp: create_channel_def no_duplicate_fields_def insert_one_def split: option.splits)

lemma update_channel_fields_no_duplicates:
  assumes "no_duplicate_fields s" and "\<And>xs. mset (set_order xs) = mset xs"
  shows "no_duplicate_fields (snd (update_channel_fields set_order s n add_fields remove_fields key))"
proof -
  have d: "distinct (set_order (current_fields fs add_fields remove_fields))" for fs
    using assms(2) [of "current_fields fs add_fields remove_fields"] current_fields_distinct
    by (metis mset_eq_imp_distinct_iff)
  have keep: "channels (fold (\<lambda>field st. update_many_set n field v st) rs s) = channels s" for rs v
    by (induction rs arbitrary: s) (simp_all add: update_many_set_def)
  show ?thesis
    using assms(1) d
    by (auto simp: update_channel_fields_def no_duplicate_fields_def update_one_fields_def
        update_many_set_def keep Let_def intro!: list_all_update_first split: sum.splits)
qed

lemma delete_field_no_duplicates:
  "no_duplicate_fields s \<Longrightarrow> no_duplicate_fields (snd (delete_field s n field_name key))"
  by (auto simp: delete_field_def no_duplicate_fields_def update_one_fields_def update_many_set_def
      distinct_removeAll intro!: list_all_update_first split: sum.splits)

section \<open>Removal of fields\<close>


















section \<open>Authorization\<close>

lemma authorize_mismatch:
  "find_one s n = Some ch \<Longrightarrow> key \<noteq> api_key ch \<Longrightarrow> authorize s n key = Inl InvalidApiKey"
  by (simp add: authorize_def)

lemma coap_authorize_mismatch:
  "find_one s (uri_path req ! 1) = Some ch \<Longrightarrow> key \<noteq> api_key ch \<Longrightarrow> key \<noteq> []
     \<Longrightarrow> map_of (coap_query_params (uri_query req)) ''api_key'' = Some key
     \<Longrightarrow> m \<le> length (uri_path req) \<Longrightarrow> coap_authorize m s req = Inl InvalidApiKey"
  by (simp add: coap_authorize_def)

text \<open>
  Claim C8, the counterexample. With an empty \<open>api_key\<close>, which is not the key of the
  channel, the query-parameter write and the CoAP resources answer that a key is
  required (400), not that the key is invalid.
\<close>

theorem empty_key_counterexample:
  "update_channel_data_by_query_params float_decimal 200 tank3 ''tank3''
       [(''api_key'', ''''), (''level'', ''75.2'')] = (Inl ApiKeyRequired, tank3)
   \<and> latest_field_render_get (\<lambda>t. ''T'') tank3 (get_request '''') = Inl ApiKeyRequired"
  by (simp add: update_channel_data_by_query_params_def query_dict_def latest_field_render_get_def
      coap_authorize_def coap_query_params_def get_request_def)

text \<open>
  Claim C8 as amended. For a channel that exists and a key that differs from the
  channel's: the handlers of \<open>app/routes\<close> that take \<open>api_key\<close> as a declared parameter
  fail with \<open>InvalidApiKey\<close> (the history query when its \<open>limit\<close> is within the
  declared bounds), and so do the query-parameter write and the three CoAP resources
  when the key is not empty; the store is unchanged in every case (the handlers that
  only read return no store).
\<close>

theorem invalid_api_key:
  "find_one s n = Some ch \<and> key \<noteq> api_key ch \<longrightarrow>
     get_channel s n key = Inl InvalidApiKey
     \<and> write_data flt now s n key bag = (Inl InvalidApiKey, s)
     \<and> ((\<forall>l. limit = Some l \<longrightarrow> 1 \<le> l \<and> l \<le> 1000)
          \<longrightarrow> get_historical_data isoformat s n key field_name start_time end_time limit = Inl InvalidApiKey)
     \<and> delete_channel s n key = (Inl InvalidApiKey, s)
     \<and> delete_field s n field key = (Inl InvalidApiKey, s)
     \<and> update_channel_fields set_order s n add_fields remove_fields key = (Inl InvalidApiKey, s)
     \<and> get_latest_data str isoformat s n key = Inl InvalidApiKey
     \<and> get_field_value isoformat s n field key = Inl InvalidApiKey
     \<and> (key \<noteq> [] \<and> map_of (query_dict params) ''api_key'' = Some key
          \<longrightarrow> update_channel_data_by_query_params flt now s n params = (Inl InvalidApiKey, s))
     \<and> (key \<noteq> [] \<and> map_of (coap_query_params (uri_query req)) ''api_key'' = Some key
          \<and> uri_path req ! 1 = n
          \<longrightarrow> (2 \<le> length (uri_path req) \<longrightarrow>
                 render_put flt isoformat now s req = (Inl InvalidApiKey, s)
                 \<and> latest_render_get isoformat s req = Inl InvalidApiKey)
              \<and> (3 \<le> length (uri_path req) \<longrightarrow>
                   latest_field_render_get isoformat s req = Inl InvalidApiKey))"
proof (intro impI)
  assume h: "find_one s n = Some ch \<and> key \<noteq> api_key ch"
  then have a: "authorize s n key = Inl InvalidApiKey" by (simp add: authorize_mismatch)
  have 1: "get_channel s n key = Inl InvalidApiKey" by (simp add: get_channel_def a)
  have 2: "write_data flt now s n key bag = (Inl InvalidApiKey, s)"
    using h by (simp add: write_data_def)
  have 3: "((\<forall>l. limit = Some l \<longrightarrow> 1 \<le> l \<and> l \<le> 1000)
          \<longrightarrow> get_historical_data isoformat s n key field_name start_time end_time limit = Inl InvalidApiKey)"
    by (auto simp: get_historical_data_def a split: option.splits)
  have 4: "delete_channel s n key = (Inl InvalidApiKey, s)" by (simp add: delete_channel_def a)
  have 5: "delete_field s n field key = (Inl InvalidApiKey, s)" by (simp add: delete_field_def a)
  have 6: "update_channel_fields set_order s n add_fields remove_fields key = (Inl InvalidApiKey, s)"
    by (simp add: update_channel_fields_def a)
  have 7: "get_latest_data str isoformat s n key = Inl InvalidApiKey"
    by (simp add: get_latest_data_def a)
  have 8: "get_field_value isoformat s n field key = Inl InvalidApiKey"
    by (simp add: get_field_value_def a)
  have 9: "update_channel_data_by_query_params flt now s n params = (Inl InvalidApiKey, s)"
    if "key \<noteq> [] \<and> map_of (query_dict params) ''api_key'' = Some key"
    using that h by (simp add: update_channel_data_by_query_params_def)
  have 10: "render_put flt isoformat now s req = (Inl InvalidApiKey, s)
            \<and> latest_render_get isoformat s req = Inl InvalidApiKey"
    if "key \<noteq> [] \<and> map_of (coap_query_params (uri_query req)) ''api_key'' = Some key
          \<and> uri_path req ! 1 = n" "2 \<le> length (uri_path req)"
    using that h coap_authorize_mismatch [of s req ch key 2]
    by (simp add: render_put_def latest_render_get_def)
  have 11: "latest_field_render_get isoformat s req = Inl InvalidApiKey"
    if "key \<noteq> [] \<and> map_of (coap_query_params (uri_query req)) ''api_key'' = Some key
          \<and> uri_path req ! 1 = n" "3 \<le> length (uri_path req)"
    using that h coap_authorize_mismatch [of s req ch key 3]
    by (simp add: latest_field_render_get_def)
  from 1 2 3 4 5 6 7 8 9 10 11
  show "get_channel s n key = Inl InvalidApiKey
     \<and> write_data flt now s n key bag = (Inl InvalidApiKey, s)
     \<and> ((\<forall>l. limit = Some l \<longrightarrow> 1 \<le> l \<and> l \<le> 1000)
          \<longrightarrow> get_historical_data isoformat s n key field_name start_time end_time limit = Inl InvalidApiKey)
     \<and> delete_channel s n key = (Inl InvalidApiKey, s)
     \<and> delete_field s n field key = (Inl InvalidApiKey, s)
     \<and> update_channel_fields set_order s n add_fields remove_fields key = (Inl InvalidApiKey, s)
     \<and> get_latest_data str isoformat s n key = Inl InvalidApiKey
     \<and> get_field_value isoformat s n field key = Inl InvalidApiKey
     \<and> (key \<noteq> [] \<and> map_of (query_dict params) ''api_key'' = Some key
          \<longrightarrow> update_channel_data_by_query_params flt now s n params = (Inl InvalidApiKey, s))
     \<and> (key \<noteq> [] \<and> map_of (coap_query_params (uri_query req)) ''api_key'' = Some key
          \<and> uri_path req ! 1 = n
          \<longrightarrow> (2 \<le> length (uri_path req) \<longrightarrow>
                 render_put flt isoformat now s req = (Inl InvalidApiKey, s)
                 \<and> latest_render_get isoformat s req = Inl InvalidApiKey)
              \<and> (3 \<le> length (uri_path req) \<longrightarrow>
                   latest_field_render_get isoformat s req = Inl InvalidApiKey))"
    by blast
qed

theorem invalid_api_key_witness:
  "find_one tank3 ''tank3'' = Some tank3_channel \<and> ''WRONG'' \<noteq> api_key tank3_channel
   \<and> ''WRONG'' \<noteq> []
   \<and> map_of (query_dict [(''api_key'', ''WRONG''), (''level'', ''75.2'')]) ''api_key'' = Some ''WRONG''
   \<and> map_of (coap_query_params (uri_query (get_request ''WRONG''))) ''api_key'' = Some ''WRONG''
   \<and> uri_path (get_request ''WRONG'') ! 1 = ''tank3'' \<and> 3 \<le> length (uri_path (get_request ''WRONG''))
   \<and> get_channel tank3 ''tank3'' ''WRONG'' = Inl InvalidApiKey
   \<and> write_data float_decimal 200 tank3 ''tank3'' ''WRONG'' [(''level'', PyStr ''75.2'')]
       = (Inl InvalidApiKey, tank3)
   \<and> get_historical_data (\<lambda>t. ''T'') tank3 ''tank3'' ''WRONG'' None None None (Some 50) = Inl InvalidApiKey
   \<and> delete_channel tank3 ''tank3'' ''WRONG'' = (Inl InvalidApiKey, tank3)
   \<and> delete_field tank3 ''tank3'' ''level'' ''WRONG'' = (Inl InvalidApiKey, tank3)
   \<and> update_channel_fields (\<lambda>xs. xs) tank3 ''tank3'' [] [''level''] ''WRONG'' = (Inl InvalidApiKey, tank3)
   \<and> get_latest_data (\<lambda>v. ''id'') (\<lambda>t. ''T'') tank3 ''tank3'' ''WRONG'' = Inl InvalidApiKey
   \<and> get_field_value (\<lambda>t. ''T'') tank3 ''tank3'' ''level'' ''WRONG'' = Inl InvalidApiKey
   \<and> update_channel_data_by_query_params float_decimal 200 tank3 ''tank3''
        [(''api_key'', ''WRONG''), (''level'', ''75.2'')] = (Inl InvalidApiKey, tank3)
   \<and> render_put float_decimal (\<lambda>t. ''T'') 200 tank3 (get_request ''WRONG'') = (Inl InvalidApiKey, tank3)
   \<and> latest_render_get (\<lambda>t. ''T'') tank3 (get_request ''WRONG'') = Inl InvalidApiKey
   \<and> latest_field_render_get (\<lambda>t. ''T'') tank3 (get_request ''WRONG'') = Inl InvalidApiKey"
proof -
  have a: "''WRONG'' \<noteq> api_key tank3_channel" "''WRONG'' \<noteq> []"
    "\<forall>l. Some (50::int) = Some l \<longrightarrow> 1 \<le> l \<and> l \<le> 1000"
    "map_of (query_dict [(''api_key'', ''WRONG''), (''level'', ''75.2'')]) ''api_key'' = Some ''WRONG''"
    "map_of (coap_query_params (uri_query (get_request ''WRONG''))) ''api_key'' = Some ''WRONG''"
    "uri_path (get_request ''WRONG'') ! 1 = ''tank3''" "3 \<le> length (uri_path (get_request ''WRONG''))"
    "2 \<le> length (uri_path (get_request ''WRONG''))"
    by (simp_all add: tank3_channel_def query_dict_def coap_query_params_def get_request_def)
  from invalid_api_key [of tank3 "''tank3''" tank3_channel "''WRONG''" float_decimal 200
      "[(''level'', PyStr ''75.2'')]" "Some 50" "\<lambda>t. ''T''" None None None "''level''" "\<lambda>xs. xs" "[]"
      "[''level'']" "\<lambda>v. ''id''" "[(''api_key'', ''WRONG''), (''level'', ''75.2'')]" "get_request ''WRONG''"]
    tank3_find a
  show ?thesis by simp
qed

section \<open>The history query\<close>










lemma tank3_history_authorize:
  "authorize tank3_history ''tank3'' ''XWHX1ZJA6Q8F'' = Inr tank3_channel"
  by (simp add: authorize_def find_one_def tank3_history_def tank3_channel_def)


lemma history_example:
  "get_historical_data (\<lambda>t. ''T'') tank3_history ''tank3'' ''XWHX1ZJA6Q8F'' (Some ''level'') None None
       (Some 2)
     = Inr [[(''timestamp'', PyStr ''T''), (''level'', PyFloat 1)],
            [(''timestamp'', PyStr ''T''), (''level'', PyFloat 2)]]"
  by (simp add: get_historical_data_def tank3_history_authorize tank3_channel_def)
     (simp add: tank3_history_def reading_def history_query_def tank_match_def sort_asc_def
        ts_key_def project_def history_projection_def iso_entry_def)

end
